theory Spec2Isabelle
  imports Complex_Main
begin

section \<open>Data model\<close>

text \<open>
  The gesture pipeline of HOLO-EARTH: \<open>HandTracker.predictWebcam\<close> (pinch classifier and
  pointer smoother) and \<open>RealisticEarth.useFrame\<close> (gesture state tracker and rotation
  controller).

  JavaScript numbers are modelled as \<^typ>\<open>real\<close>: every statement below is about the
  exact arithmetic of the formulas and of the state machines, not about IEEE rounding.
  Properties that are themselves about rounding or about \<open>NaN\<close> (the tolerance of the
  geographic round trip, the result of normalising a zero vector) are outside this model
  and are not treated here.
\<close>

text \<open>\<open>HandData\<close> (HandTracker.tsx): \<open>{x, y, active}\<close>, the shared pointer state.\<close>

record HandData =
  hand_x :: real
  hand_y :: real
  active :: bool

text \<open>The anonymous \<open>{x: number, y: number}\<close> objects held by \<open>prevHand\<close> and \<open>lastHandPos\<close>.\<close>

record Point2 =
  pos_x :: real
  pos_y :: real

text \<open>\<open>HandLandmark\<close> (types.ts).\<close>

record HandLandmark =
  lm_x :: real
  lm_y :: real
  lm_z :: real

text \<open>\<open>LocationData\<close> (types.ts).\<close>

record LocationData =
  lat :: real
  lon :: real

text \<open>The two Euler angles of \<open>rotation\<close> (a \<open>THREE.Euler\<close>) that the code touches.\<close>

record Rotation =
  rot_x :: real
  rot_y :: real

section \<open>RealisticEarth.useFrame: gesture state tracker and rotation controller\<close>

text \<open>
  The mutable cells that \<open>useFrame\<close> reads and writes: \<open>earthRef.current\<close> (absent until the
  group is mounted; only its \<open>rotation\<close> is used), \<open>cloudsRef.current.rotation.y\<close> and
  \<open>lastHandPos.current\<close>. Yaw is \<open>rotation.y\<close>, pitch is \<open>rotation.x\<close>.
\<close>

record Scene =
  earthRef :: "Rotation option"
  cloudsRef :: "real option"
  lastHandPos :: "Point2 option"

text \<open>
  \<open>useFrame((state, delta) => ...)\<close>, HoloEarth.tsx lines 56-96. The arguments are the
  value of \<open>handDataRef.current\<close> read at line 59, the \<open>selectedLocation\<close> prop and the elapsed
  time \<open>delta\<close>.
\<close>

definition useFrame :: "HandData \<Rightarrow> LocationData option \<Rightarrow> real \<Rightarrow> Scene \<Rightarrow> Scene" where
  "useFrame handData selectedLocation delta s =
     (case earthRef s of
        None \<Rightarrow> s
      | Some rotation \<Rightarrow>
          let s1 = (case cloudsRef s of
                      None \<Rightarrow> s
                    | Some c \<Rightarrow> s\<lparr>cloudsRef := Some (c + delta * 0.02)\<rparr>)
          in if active handData then
               (case lastHandPos s1 of
                  None \<Rightarrow>
                    s1\<lparr>lastHandPos := Some \<lparr>pos_x = hand_x handData, pos_y = hand_y handData\<rparr>\<rparr>
                | Some lastPos \<Rightarrow>
                    let deltaX = hand_x handData - pos_x lastPos;
                        deltaY = hand_y handData - pos_y lastPos
                    in s1\<lparr>earthRef := Some \<lparr>rot_x = rot_x rotation + deltaY * 10,
                                              rot_y = rot_y rotation + deltaX * 10\<rparr>,
                           lastHandPos := Some \<lparr>pos_x = hand_x handData, pos_y = hand_y handData\<rparr>\<rparr>)
             else
               let s2 = s1\<lparr>lastHandPos := None\<rparr>
               in if selectedLocation = None
                  then s2\<lparr>earthRef := Some (rotation\<lparr>rot_y := rot_y rotation + delta * 0.05\<rparr>)\<rparr>
                  else s2)"

text \<open>The render loop: \<open>useFrame\<close> once per rendered frame; the scene after each frame.\<close>

fun render_frames :: "Scene \<Rightarrow> (HandData \<times> LocationData option \<times> real) list \<Rightarrow> Scene list" where
  "render_frames s [] = []"
| "render_frames s ((handData, selectedLocation, delta) # fs) =
     (let s' = useFrame handData selectedLocation delta s in s' # render_frames s' fs)"

section \<open>HandTracker.predictWebcam: pinch classifier and pointer smoother\<close>

text \<open>
  What one call of \<open>recognizeForVideo\<close> does: it throws, or it returns a result whose
  \<open>landmarks\<close> field is absent or a list of hands, each a list of landmarks.
\<close>

datatype Recognition = Throws | Results "HandLandmark list list option"

text \<open>
  Everything \<open>predictWebcam\<close> reads from outside in one animation frame:
  \<open>videoReady\<close> is \<open>videoRef.current && videoRef.current.readyState === 4 && canvasRef.current\<close>,
  \<open>recognizerLoaded\<close> is \<open>recognizerRef.current\<close>, \<open>currentTime\<close> is
  \<open>videoRef.current.currentTime\<close>, \<open>recognition\<close> is the outcome of \<open>recognizeForVideo\<close>,
  \<open>hasContext\<close> is whether \<open>getContext('2d')\<close> returned a context and \<open>random\<close> is the
  value of \<open>Math.random()\<close>.
\<close>

record VideoFrame =
  videoReady :: bool
  recognizerLoaded :: bool
  currentTime :: real
  recognition :: Recognition
  hasContext :: bool
  random :: real

text \<open>
  The cells \<open>predictWebcam\<close> writes: \<open>prevHand.current\<close>, \<open>handDataRef.current\<close>,
  \<open>lastVideoTime.current\<close> and the \<open>pinchDist\<close> state.
\<close>

record Tracker =
  prevHand :: Point2
  handData :: HandData
  lastVideoTime :: real
  pinchDist :: real

text \<open>Lines 376-379: the distance between thumb tip and index tip in the image plane.\<close>

definition pinch_distance :: "HandLandmark \<Rightarrow> HandLandmark \<Rightarrow> real" where
  "pinch_distance thumbTip indexTip =
     sqrt ((lm_x thumbTip - lm_x indexTip)\<^sup>2 + (lm_y thumbTip - lm_y indexTip)\<^sup>2)"

text \<open>Line 385: \<open>const isPinching = distance < 0.15\<close>.\<close>

definition isPinching :: "real \<Rightarrow> bool" where
  "isPinching distance = (distance < 0.15)"

text \<open>Line 417: \<open>const alpha = 0.2\<close>.\<close>

definition alpha :: real where
  "alpha = 0.2"

text \<open>Lines 413-421: the new value of \<open>prevHand.current\<close> from the old one and the index tip.\<close>

definition smooth :: "Point2 \<Rightarrow> HandLandmark \<Rightarrow> Point2" where
  "smooth prev indexTip =
     (let rawX = 1 - lm_x indexTip;
          rawY = lm_y indexTip;
          smoothX = pos_x prev + (rawX - pos_x prev) * alpha;
          smoothY = pos_y prev + (rawY - pos_y prev) * alpha
      in \<lparr>pos_x = smoothX, pos_y = smoothY\<rparr>)"

text \<open>
  \<open>predictWebcam\<close>, HandTracker.tsx lines 349-442, without the canvas drawing and the
  status text. The \<open>try\<close> block is left by an exception when \<open>recognizeForVideo\<close> throws
  and when \<open>hand[8]\<close> or \<open>hand[4]\<close> is \<open>undefined\<close> (reading \<open>.x\<close> of it is a TypeError);
  the \<open>catch\<close> only logs, so the tracker is then as it was when the exception was raised.
\<close>

definition predictWebcam :: "Tracker \<Rightarrow> VideoFrame \<Rightarrow> Tracker" where
  "predictWebcam t f =
     (if videoReady f then
        if recognizerLoaded f then
          if currentTime f \<noteq> lastVideoTime t then
            let t1 = t\<lparr>lastVideoTime := currentTime f\<rparr>
            in (case recognition f of
                  Throws \<Rightarrow> t1
                | Results landmarks \<Rightarrow>
                    if hasContext f then
                      (case landmarks of
                         Some (hand # _) \<Rightarrow>
                           if 8 < length hand then
                             let indexTip = hand ! 8;
                                 thumbTip = hand ! 4;
                                 distance = pinch_distance thumbTip indexTip;
                                 t2 = (if random f > 0.9 then t1\<lparr>pinchDist := distance\<rparr> else t1);
                                 p = smooth (prevHand t2) indexTip
                             in t2\<lparr>prevHand := p,
                                   handData := \<lparr>hand_x = pos_x p, hand_y = pos_y p,
                                                active = isPinching distance\<rparr>\<rparr>
                           else t1
                       | _ \<Rightarrow> t1\<lparr>handData := (handData t1)\<lparr>active := False\<rparr>\<rparr>)
                    else t1)
          else t
        else t
      else t)"

text \<open>The animation loop: \<open>predictWebcam\<close> once per animation frame.\<close>

fun track_frames :: "Tracker \<Rightarrow> VideoFrame list \<Rightarrow> Tracker" where
  "track_frames t [] = t"
| "track_frames t (f # fs) = track_frames (predictWebcam t f) fs"

text \<open>
  The state before the first frame: \<open>prevHand\<close> (line 243), \<open>handDataRef\<close> (App.tsx,
  \<open>useRef<HandData>({ x: 0.5, y: 0.5, active: false })\<close>), \<open>lastVideoTime\<close> (line 240) and
  \<open>pinchDist\<close> (line 238).
\<close>

definition initial_tracker :: Tracker where
  "initial_tracker =
     \<lparr>prevHand = \<lparr>pos_x = 0.5, pos_y = 0.5\<rparr>,
      handData = \<lparr>hand_x = 0.5, hand_y = 0.5, active = False\<rparr>,
      lastVideoTime = - 1,
      pinchDist = 0\<rparr>"

text \<open>
  Test inputs: a frame on which the recogniser returns the one hand \<open>hand\<close> at video time
  \<open>time\<close>, a frame on which it returns no hand, and a frame on which it throws.
\<close>

definition hand_frame :: "real \<Rightarrow> HandLandmark list \<Rightarrow> VideoFrame" where
  "hand_frame time hand =
     \<lparr>videoReady = True, recognizerLoaded = True, currentTime = time,
      recognition = Results (Some [hand]), hasContext = True, random = 0\<rparr>"

definition no_hand_frame :: "real \<Rightarrow> VideoFrame" where
  "no_hand_frame time =
     \<lparr>videoReady = True, recognizerLoaded = True, currentTime = time,
      recognition = Results (Some []), hasContext = True, random = 0\<rparr>"

definition throwing_frame :: "real \<Rightarrow> VideoFrame" where
  "throwing_frame time =
     \<lparr>videoReady = True, recognizerLoaded = True, currentTime = time,
      recognition = Throws, hasContext = True, random = 0\<rparr>"

text \<open>A hand of 21 landmarks with the given thumb tip (index 4) and index tip (index 8).\<close>

definition hand_with :: "HandLandmark \<Rightarrow> HandLandmark \<Rightarrow> HandLandmark list" where
  "hand_with thumbTip indexTip =
     (replicate 21 \<lparr>lm_x = 0.5, lm_y = 0.5, lm_z = 0\<rparr>)[4 := thumbTip, 8 := indexTip]"

text \<open>\<open>n\<close> successive frames, at video times \<open>1, ..., n\<close>, all showing the same hand.\<close>

definition held_frames :: "nat \<Rightarrow> HandLandmark list \<Rightarrow> VideoFrame list" where
  "held_frames n hand = map (\<lambda>i. hand_frame (real (Suc i)) hand) [0..<n]"

text \<open>
  The assumption on the landmark source used for the unit-square invariant: the index tip
  that \<open>predictWebcam\<close> reads from the frame, if there is one, has \<open>x\<close> and \<open>y\<close> in \<open>[0,1]\<close>.
\<close>

definition fingertip_in_unit_square :: "VideoFrame \<Rightarrow> bool" where
  "fingertip_in_unit_square f =
     (case recognition f of
        Results (Some (hand # _)) \<Rightarrow>
          8 < length hand \<longrightarrow>
            0 \<le> lm_x (hand ! 8) \<and> lm_x (hand ! 8) \<le> 1 \<and> 0 \<le> lm_y (hand ! 8) \<and> lm_y (hand ! 8) \<le> 1
      | _ \<Rightarrow> True)"

section \<open>Rotation controller\<close>

lemma useFrame_drag:
  assumes "earthRef s = Some r" and "lastHandPos s = Some p" and "active h"
  shows "earthRef (useFrame h sel dt s) =
           Some \<lparr>rot_x = rot_x r + (hand_y h - pos_y p) * 10,
                 rot_y = rot_y r + (hand_x h - pos_x p) * 10\<rparr>"
    and "lastHandPos (useFrame h sel dt s) = Some \<lparr>pos_x = hand_x h, pos_y = hand_y h\<rparr>"
  using assms by (simp_all add: useFrame_def Let_def split: option.splits)

lemma useFrame_grab:
  assumes "earthRef s = Some r" and "lastHandPos s = None" and "active h"
  shows "earthRef (useFrame h sel dt s) = Some r"
    and "lastHandPos (useFrame h sel dt s) = Some \<lparr>pos_x = hand_x h, pos_y = hand_y h\<rparr>"
  using assms by (simp_all add: useFrame_def Let_def split: option.splits)

lemma useFrame_idle:
  assumes "earthRef s = Some r" and "\<not> active h"
  shows "earthRef (useFrame h sel dt s) =
           Some (if sel = None then r\<lparr>rot_y := rot_y r + dt * 0.05\<rparr> else r)"
    and "lastHandPos (useFrame h sel dt s) = None"
  using assms by (simp_all add: useFrame_def Let_def split: option.splits)

text \<open>
  C8. On every frame that carries a drag delta (the hand is active and the previous
  pointer position \<open>p\<close> is known, so the code computes \<open>deltaX = x - p.x\<close> and
  \<open>deltaY = y - p.y\<close>), yaw becomes \<open>yaw + deltaX * 10\<close> and pitch becomes
  \<open>pitch + deltaY * 10\<close>, whatever their size (no clamping). A delta of \<open>(0.05, 0)\<close> adds
  exactly \<open>0.5\<close> to the yaw and leaves the pitch as it is.
\<close>

theorem C8_drag_rotation:
  assumes "earthRef s = Some r" and "lastHandPos s = Some p" and "active h"
  shows "(\<exists>r'. earthRef (useFrame h sel dt s) = Some r'
            \<and> rot_y r' = rot_y r + (hand_x h - pos_x p) * 10
            \<and> rot_x r' = rot_x r + (hand_y h - pos_y p) * 10)
       \<and> (hand_x h - pos_x p = 0.05 \<and> hand_y h - pos_y p = 0 \<longrightarrow>
            earthRef (useFrame h sel dt s) = Some \<lparr>rot_x = rot_x r, rot_y = rot_y r + 0.5\<rparr>)"
  using useFrame_drag(1) [OF assms, of sel dt] by simp

theorem C8_drag_rotation_witness:
  "(\<exists>r'. earthRef (useFrame \<lparr>hand_x = 0.55, hand_y = 0.5, active = True\<rparr> None 0.016
              \<lparr>earthRef = Some \<lparr>rot_x = 100, rot_y = 200\<rparr>, cloudsRef = Some 0,
               lastHandPos = Some \<lparr>pos_x = 0.5, pos_y = 0.5\<rparr>\<rparr>) = Some r'
         \<and> rot_y r' = 200.5 \<and> rot_x r' = 100)"
  using C8_drag_rotation [of "\<lparr>earthRef = Some \<lparr>rot_x = 100, rot_y = 200\<rparr>, cloudsRef = Some 0,
               lastHandPos = Some \<lparr>pos_x = 0.5, pos_y = 0.5\<rparr>\<rparr>" "\<lparr>rot_x = 100, rot_y = 200\<rparr>"
               "\<lparr>pos_x = 0.5, pos_y = 0.5\<rparr>" "\<lparr>hand_x = 0.55, hand_y = 0.5, active = True\<rparr>"
               None "0.016"]
  by simp

section \<open>Gesture state tracker\<close>

text \<open>
  C1. No jump on grab. The code has no separate delta value: a frame that "emits the delta
  \<open>d\<close>" is a frame after which yaw and pitch have grown by \<open>10 * d\<close> and
  \<open>lastHandPos\<close> holds the frame's pointer position; a frame that "emits none" is a frame
  of the idle branch, after which \<open>lastHandPos\<close> is absent. With the globe mounted, the
  frames [inactive, active at (0.5,0.5), active at (0.6,0.5), active at (0.6,0.6)] leave
  \<open>lastHandPos\<close> at [absent, (0.5,0.5), (0.6,0.5), (0.6,0.6)] and move the rotation, from
  its value \<open>r1\<close> after the first frame, by \<open>10 * (0,0)\<close>, then \<open>10 * (0.1,0)\<close>, then
  \<open>10 * (0,0.1)\<close>. On every first active frame the pointer position is stored and the
  rotation is not changed; on every later active frame the rotation grows by ten times the
  difference to the stored position, which is then replaced.
\<close>

theorem C1_no_jump_on_grab:
  assumes "earthRef s0 = Some r0" and "\<not> active h1"
  shows "(let r1 = (if sel1 = None then r0\<lparr>rot_y := rot_y r0 + dt1 * 0.05\<rparr> else r0);
              trace = render_frames s0
                        [(h1, sel1, dt1),
                         (\<lparr>hand_x = 0.5, hand_y = 0.5, active = True\<rparr>, sel2, dt2),
                         (\<lparr>hand_x = 0.6, hand_y = 0.5, active = True\<rparr>, sel3, dt3),
                         (\<lparr>hand_x = 0.6, hand_y = 0.6, active = True\<rparr>, sel4, dt4)]
          in map lastHandPos trace =
               [None,
                Some \<lparr>pos_x = 0.5, pos_y = 0.5\<rparr>,
                Some \<lparr>pos_x = 0.6, pos_y = 0.5\<rparr>,
                Some \<lparr>pos_x = 0.6, pos_y = 0.6\<rparr>]
           \<and> map earthRef trace =
               [Some r1,
                Some \<lparr>rot_x = rot_x r1 + 0 * 10, rot_y = rot_y r1 + 0 * 10\<rparr>,
                Some \<lparr>rot_x = rot_x r1 + 0 * 10, rot_y = rot_y r1 + 0.1 * 10\<rparr>,
                Some \<lparr>rot_x = rot_x r1 + 0.1 * 10, rot_y = rot_y r1 + 0.1 * 10\<rparr>])
       \<and> (\<forall>s r h sel dt. earthRef s = Some r \<and> lastHandPos s = None \<and> active h \<longrightarrow>
             lastHandPos (useFrame h sel dt s) = Some \<lparr>pos_x = hand_x h, pos_y = hand_y h\<rparr>
           \<and> earthRef (useFrame h sel dt s) = Some r)
       \<and> (\<forall>s r p h sel dt. earthRef s = Some r \<and> lastHandPos s = Some p \<and> active h \<longrightarrow>
             lastHandPos (useFrame h sel dt s) = Some \<lparr>pos_x = hand_x h, pos_y = hand_y h\<rparr>
           \<and> earthRef (useFrame h sel dt s) =
               Some \<lparr>rot_x = rot_x r + (hand_y h - pos_y p) * 10,
                     rot_y = rot_y r + (hand_x h - pos_x p) * 10\<rparr>)"
proof -
  define r1 where "r1 = (if sel1 = None then r0\<lparr>rot_y := rot_y r0 + dt1 * 0.05\<rparr> else r0)"
  define g2 where "g2 = \<lparr>hand_x = 0.5, hand_y = 0.5, active = True\<rparr>"
  define g3 where "g3 = \<lparr>hand_x = 0.6, hand_y = 0.5, active = True\<rparr>"
  define g4 where "g4 = \<lparr>hand_x = 0.6, hand_y = 0.6, active = True\<rparr>"
  define s1 where "s1 = useFrame h1 sel1 dt1 s0"
  define s2 where "s2 = useFrame g2 sel2 dt2 s1"
  define s3 where "s3 = useFrame g3 sel3 dt3 s2"
  define s4 where "s4 = useFrame g4 sel4 dt4 s3"
  have e1: "earthRef s1 = Some r1" and l1: "lastHandPos s1 = None"
    using useFrame_idle [OF assms, of sel1 dt1] by (simp_all add: s1_def r1_def)
  have e2: "earthRef s2 = Some r1"
    and l2: "lastHandPos s2 = Some \<lparr>pos_x = 0.5, pos_y = 0.5\<rparr>"
    using useFrame_grab [OF e1 l1, of g2 sel2 dt2] by (simp_all add: s2_def g2_def)
  have e3: "earthRef s3 = Some \<lparr>rot_x = rot_x r1, rot_y = rot_y r1 + 1\<rparr>"
    and l3: "lastHandPos s3 = Some \<lparr>pos_x = 0.6, pos_y = 0.5\<rparr>"
    using useFrame_drag [OF e2 l2, of g3 sel3 dt3] by (simp_all add: s3_def g3_def)
  have e4: "earthRef s4 = Some \<lparr>rot_x = rot_x r1 + 1, rot_y = rot_y r1 + 1\<rparr>"
    and l4: "lastHandPos s4 = Some \<lparr>pos_x = 0.6, pos_y = 0.6\<rparr>"
    using useFrame_drag [OF e3 l3, of g4 sel4 dt4] by (simp_all add: s4_def g4_def)
  have trace: "render_frames s0 [(h1, sel1, dt1), (g2, sel2, dt2), (g3, sel3, dt3), (g4, sel4, dt4)]
                 = [s1, s2, s3, s4]"
    by (simp add: s1_def s2_def s3_def s4_def Let_def)
  have A: "map lastHandPos [s1, s2, s3, s4] =
               [None,
                Some \<lparr>pos_x = 0.5, pos_y = 0.5\<rparr>,
                Some \<lparr>pos_x = 0.6, pos_y = 0.5\<rparr>,
                Some \<lparr>pos_x = 0.6, pos_y = 0.6\<rparr>]"
    by (simp add: l1 l2 l3 l4)
  have B: "map earthRef [s1, s2, s3, s4] =
               [Some r1,
                Some \<lparr>rot_x = rot_x r1 + 0 * 10, rot_y = rot_y r1 + 0 * 10\<rparr>,
                Some \<lparr>rot_x = rot_x r1 + 0 * 10, rot_y = rot_y r1 + 0.1 * 10\<rparr>,
                Some \<lparr>rot_x = rot_x r1 + 0.1 * 10, rot_y = rot_y r1 + 0.1 * 10\<rparr>]"
    by (simp add: e1 e2 e3 e4)
  have C: "\<forall>s r h sel dt. earthRef s = Some r \<and> lastHandPos s = None \<and> active h \<longrightarrow>
             lastHandPos (useFrame h sel dt s) = Some \<lparr>pos_x = hand_x h, pos_y = hand_y h\<rparr>
           \<and> earthRef (useFrame h sel dt s) = Some r"
    using useFrame_grab by blast
  have D: "\<forall>s r p h sel dt. earthRef s = Some r \<and> lastHandPos s = Some p \<and> active h \<longrightarrow>
             lastHandPos (useFrame h sel dt s) = Some \<lparr>pos_x = hand_x h, pos_y = hand_y h\<rparr>
           \<and> earthRef (useFrame h sel dt s) =
               Some \<lparr>rot_x = rot_x r + (hand_y h - pos_y p) * 10,
                     rot_y = rot_y r + (hand_x h - pos_x p) * 10\<rparr>"
    using useFrame_drag by blast
  show ?thesis
    unfolding Let_def r1_def [symmetric] g2_def [symmetric] g3_def [symmetric] g4_def [symmetric] trace
    using A B C D by blast
qed

theorem C1_no_jump_on_grab_witness:
  "(let trace = render_frames
                  \<lparr>earthRef = Some \<lparr>rot_x = 0, rot_y = 0\<rparr>, cloudsRef = Some 0,
                   lastHandPos = None\<rparr>
                  [(\<lparr>hand_x = 0.3, hand_y = 0.7, active = False\<rparr>, None, 1),
                   (\<lparr>hand_x = 0.5, hand_y = 0.5, active = True\<rparr>, None, 1),
                   (\<lparr>hand_x = 0.6, hand_y = 0.5, active = True\<rparr>, None, 1),
                   (\<lparr>hand_x = 0.6, hand_y = 0.6, active = True\<rparr>, None, 1)]
    in map lastHandPos trace =
         [None, Some \<lparr>pos_x = 0.5, pos_y = 0.5\<rparr>, Some \<lparr>pos_x = 0.6, pos_y = 0.5\<rparr>,
          Some \<lparr>pos_x = 0.6, pos_y = 0.6\<rparr>]
     \<and> map earthRef trace =
         [Some \<lparr>rot_x = 0, rot_y = 0.05\<rparr>, Some \<lparr>rot_x = 0, rot_y = 0.05\<rparr>,
          Some \<lparr>rot_x = 0, rot_y = 1.05\<rparr>, Some \<lparr>rot_x = 1, rot_y = 1.05\<rparr>])"
  using C1_no_jump_on_grab
          [of "\<lparr>earthRef = Some \<lparr>rot_x = 0, rot_y = 0\<rparr>, cloudsRef = Some 0, lastHandPos = None\<rparr>"
              "\<lparr>rot_x = 0, rot_y = 0\<rparr>" "\<lparr>hand_x = 0.3, hand_y = 0.7, active = False\<rparr>"
              None 1 None 1 None 1 None 1]
  by (simp add: Let_def)

text \<open>
  C9. Idle reset. With the globe mounted and a drag in progress (\<open>lastHandPos\<close> holds
  \<open>p\<close>), an inactive frame clears \<open>lastHandPos\<close> and applies no drag delta (pitch is
  unchanged; yaw changes only by the idle spin of an unpinned globe). The next active
  frame stores its own pointer position and leaves the rotation as it is, and the active
  frame after that rotates by ten times the difference of the two new positions: the old
  position \<open>p\<close> appears nowhere in the result.
\<close>

theorem C9_idle_reset:
  assumes "earthRef s = Some r" and "lastHandPos s = Some p"
    and "\<not> active h1" and "active h2" and "active h3"
  shows "(let r1 = (if sel1 = None then r\<lparr>rot_y := rot_y r + dt1 * 0.05\<rparr> else r);
              trace = render_frames s [(h1, sel1, dt1), (h2, sel2, dt2), (h3, sel3, dt3)]
          in map lastHandPos trace =
               [None,
                Some \<lparr>pos_x = hand_x h2, pos_y = hand_y h2\<rparr>,
                Some \<lparr>pos_x = hand_x h3, pos_y = hand_y h3\<rparr>]
           \<and> map earthRef trace =
               [Some r1,
                Some r1,
                Some \<lparr>rot_x = rot_x r1 + (hand_y h3 - hand_y h2) * 10,
                      rot_y = rot_y r1 + (hand_x h3 - hand_x h2) * 10\<rparr>])"
proof -
  define r1 where "r1 = (if sel1 = None then r\<lparr>rot_y := rot_y r + dt1 * 0.05\<rparr> else r)"
  define s1 where "s1 = useFrame h1 sel1 dt1 s"
  define s2 where "s2 = useFrame h2 sel2 dt2 s1"
  define s3 where "s3 = useFrame h3 sel3 dt3 s2"
  have e1: "earthRef s1 = Some r1" and l1: "lastHandPos s1 = None"
    using useFrame_idle [OF assms(1,3), of sel1 dt1] by (simp_all add: s1_def r1_def)
  have e2: "earthRef s2 = Some r1"
    and l2: "lastHandPos s2 = Some \<lparr>pos_x = hand_x h2, pos_y = hand_y h2\<rparr>"
    using useFrame_grab [OF e1 l1 assms(4), of sel2 dt2] by (simp_all add: s2_def)
  have e3: "earthRef s3 = Some \<lparr>rot_x = rot_x r1 + (hand_y h3 - hand_y h2) * 10,
                                 rot_y = rot_y r1 + (hand_x h3 - hand_x h2) * 10\<rparr>"
    and l3: "lastHandPos s3 = Some \<lparr>pos_x = hand_x h3, pos_y = hand_y h3\<rparr>"
    using useFrame_drag [OF e2 l2 assms(5), of sel3 dt3] by (simp_all add: s3_def)
  have trace: "render_frames s [(h1, sel1, dt1), (h2, sel2, dt2), (h3, sel3, dt3)] = [s1, s2, s3]"
    by (simp add: s1_def s2_def s3_def Let_def)
  show ?thesis
    unfolding Let_def r1_def [symmetric] trace
    by (simp add: e1 e2 e3 l1 l2 l3)
qed

theorem C9_idle_reset_witness:
  "(let trace = render_frames
                  \<lparr>earthRef = Some \<lparr>rot_x = 0, rot_y = 0\<rparr>, cloudsRef = None,
                   lastHandPos = Some \<lparr>pos_x = 0.1, pos_y = 0.1\<rparr>\<rparr>
                  [(\<lparr>hand_x = 0.2, hand_y = 0.2, active = False\<rparr>,
                      Some \<lparr>lat = 48, lon = 2\<rparr>, 1),
                   (\<lparr>hand_x = 0.8, hand_y = 0.8, active = True\<rparr>,
                      Some \<lparr>lat = 48, lon = 2\<rparr>, 1),
                   (\<lparr>hand_x = 0.9, hand_y = 0.8, active = True\<rparr>,
                      Some \<lparr>lat = 48, lon = 2\<rparr>, 1)]
    in map lastHandPos trace =
         [None, Some \<lparr>pos_x = 0.8, pos_y = 0.8\<rparr>, Some \<lparr>pos_x = 0.9, pos_y = 0.8\<rparr>]
     \<and> map earthRef trace =
         [Some \<lparr>rot_x = 0, rot_y = 0\<rparr>, Some \<lparr>rot_x = 0, rot_y = 0\<rparr>,
          Some \<lparr>rot_x = 0, rot_y = 1\<rparr>])"
  using C9_idle_reset
          [of "\<lparr>earthRef = Some \<lparr>rot_x = 0, rot_y = 0\<rparr>, cloudsRef = None,
                lastHandPos = Some \<lparr>pos_x = 0.1, pos_y = 0.1\<rparr>\<rparr>"
              "\<lparr>rot_x = 0, rot_y = 0\<rparr>" "\<lparr>pos_x = 0.1, pos_y = 0.1\<rparr>"
              "\<lparr>hand_x = 0.2, hand_y = 0.2, active = False\<rparr>"
              "\<lparr>hand_x = 0.8, hand_y = 0.8, active = True\<rparr>"
              "\<lparr>hand_x = 0.9, hand_y = 0.8, active = True\<rparr>"
              "Some \<lparr>lat = 48, lon = 2\<rparr>" 1 "Some \<lparr>lat = 48, lon = 2\<rparr>" 1
              "Some \<lparr>lat = 48, lon = 2\<rparr>" 1]
  by (simp add: Let_def)

section \<open>Idle rotation\<close>

text \<open>
  C7. A frame with no drag delta is a frame on which the hand is not active (the first
  active frame of a grab counts as a frame with the delta zero, see C1). With the globe
  mounted, such a frame adds \<open>delta * 0.05\<close> to the yaw and nothing to the pitch when no
  location is selected (whether or not a pointer-device drag is going on: \<open>useFrame\<close>
  does not look at it), and leaves yaw and pitch as they are when a location is selected.
  A frame that carries a drag delta rotates the globe by ten times the delta also when a
  location is selected.
\<close>

theorem C7_idle_rotation:
  assumes "earthRef s = Some r"
  shows "(\<not> active h \<longrightarrow>
            earthRef (useFrame h None dt s) = Some \<lparr>rot_x = rot_x r, rot_y = rot_y r + dt * 0.05\<rparr>
          \<and> earthRef (useFrame h (Some loc) dt s) = Some r)
       \<and> (active h \<and> lastHandPos s = Some p \<longrightarrow>
            earthRef (useFrame h (Some loc) dt s) =
              Some \<lparr>rot_x = rot_x r + (hand_y h - pos_y p) * 10,
                    rot_y = rot_y r + (hand_x h - pos_x p) * 10\<rparr>)"
proof (intro conjI impI)
  assume "\<not> active h"
  from useFrame_idle(1) [OF assms this, of None dt]
  show "earthRef (useFrame h None dt s) = Some \<lparr>rot_x = rot_x r, rot_y = rot_y r + dt * 0.05\<rparr>"
    by simp
next
  assume "\<not> active h"
  from useFrame_idle(1) [OF assms this, of "Some loc" dt]
  show "earthRef (useFrame h (Some loc) dt s) = Some r"
    by simp
next
  assume "active h \<and> lastHandPos s = Some p"
  then show "earthRef (useFrame h (Some loc) dt s) =
              Some \<lparr>rot_x = rot_x r + (hand_y h - pos_y p) * 10,
                    rot_y = rot_y r + (hand_x h - pos_x p) * 10\<rparr>"
    using useFrame_drag(1) [OF assms, of p h "Some loc" dt] by simp
qed

theorem C7_idle_rotation_witness:
  "earthRef (useFrame \<lparr>hand_x = 0.5, hand_y = 0.5, active = False\<rparr> None 2
               \<lparr>earthRef = Some \<lparr>rot_x = 1, rot_y = 1\<rparr>, cloudsRef = Some 0, lastHandPos = None\<rparr>)
     = Some \<lparr>rot_x = 1, rot_y = 1.1\<rparr>
   \<and> earthRef (useFrame \<lparr>hand_x = 0.5, hand_y = 0.5, active = False\<rparr> (Some \<lparr>lat = 48, lon = 2\<rparr>) 2
               \<lparr>earthRef = Some \<lparr>rot_x = 1, rot_y = 1\<rparr>, cloudsRef = Some 0, lastHandPos = None\<rparr>)
     = Some \<lparr>rot_x = 1, rot_y = 1\<rparr>
   \<and> earthRef (useFrame \<lparr>hand_x = 0.6, hand_y = 0.5, active = True\<rparr> (Some \<lparr>lat = 48, lon = 2\<rparr>) 2
               \<lparr>earthRef = Some \<lparr>rot_x = 1, rot_y = 1\<rparr>, cloudsRef = Some 0,
                lastHandPos = Some \<lparr>pos_x = 0.5, pos_y = 0.5\<rparr>\<rparr>)
     = Some \<lparr>rot_x = 1, rot_y = 2\<rparr>"
  using C7_idle_rotation
          [where s = "\<lparr>earthRef = Some \<lparr>rot_x = 1, rot_y = 1\<rparr>, cloudsRef = Some 0,
                        lastHandPos = None\<rparr>"
             and r = "\<lparr>rot_x = 1, rot_y = 1\<rparr>"
             and h = "\<lparr>hand_x = 0.5, hand_y = 0.5, active = False\<rparr>" and dt = 2
             and loc = "\<lparr>lat = 48, lon = 2\<rparr>"]
        C7_idle_rotation
          [where s = "\<lparr>earthRef = Some \<lparr>rot_x = 1, rot_y = 1\<rparr>, cloudsRef = Some 0,
                        lastHandPos = Some \<lparr>pos_x = 0.5, pos_y = 0.5\<rparr>\<rparr>"
             and r = "\<lparr>rot_x = 1, rot_y = 1\<rparr>"
             and h = "\<lparr>hand_x = 0.6, hand_y = 0.5, active = True\<rparr>"
             and p = "\<lparr>pos_x = 0.5, pos_y = 0.5\<rparr>" and dt = 2
             and loc = "\<lparr>lat = 48, lon = 2\<rparr>"]
  by simp

section \<open>Pinch classifier\<close>

lemma predictWebcam_hand:
  assumes "videoReady f" and "recognizerLoaded f" and "currentTime f \<noteq> lastVideoTime t"
    and "hasContext f" and "recognition f = Results (Some (hand # rest))" and "8 < length hand"
  shows "prevHand (predictWebcam t f) = smooth (prevHand t) (hand ! 8)"
    and "handData (predictWebcam t f) =
           \<lparr>hand_x = pos_x (smooth (prevHand t) (hand ! 8)),
            hand_y = pos_y (smooth (prevHand t) (hand ! 8)),
            active = isPinching (pinch_distance (hand ! 4) (hand ! 8))\<rparr>"
    and "lastVideoTime (predictWebcam t f) = currentTime f"
  using assms by (simp_all add: predictWebcam_def Let_def)

lemma predictWebcam_no_hand:
  assumes "videoReady f" and "recognizerLoaded f" and "currentTime f \<noteq> lastVideoTime t"
    and "hasContext f" and "recognition f = Results (Some [])"
  shows "prevHand (predictWebcam t f) = prevHand t"
    and "handData (predictWebcam t f) = (handData t)\<lparr>active := False\<rparr>"
  using assms by (simp_all add: predictWebcam_def Let_def)

lemma predictWebcam_throws:
  assumes "recognition f = Throws"
  shows "prevHand (predictWebcam t f) = prevHand t"
    and "handData (predictWebcam t f) = handData t"
  using assms by (simp_all add: predictWebcam_def Let_def)

lemma hand_with_nth [simp]:
  "hand_with a b ! 8 = b" "hand_with a b ! 4 = a" "length (hand_with a b) = 21"
  by (simp_all add: hand_with_def)

lemma hand_frame_sel [simp]:
  "videoReady (hand_frame k h)" "recognizerLoaded (hand_frame k h)" "hasContext (hand_frame k h)"
  "currentTime (hand_frame k h) = k" "recognition (hand_frame k h) = Results (Some [h])"
  by (simp_all add: hand_frame_def)

lemma pinch_distance_level:
  "lm_y a = lm_y b \<Longrightarrow> pinch_distance a b = \<bar>lm_x a - lm_x b\<bar>"
  by (simp add: pinch_distance_def)

lemma smooth_x: "pos_x (smooth p tip) - (1 - lm_x tip) = (1 - alpha) * (pos_x p - (1 - lm_x tip))"
  by (simp add: smooth_def Let_def algebra_simps)

lemma smooth_y: "pos_y (smooth p tip) - lm_y tip = (1 - alpha) * (pos_y p - lm_y tip)"
  by (simp add: smooth_def Let_def algebra_simps)

lemma sqrt_0225: "sqrt ((9/100)\<^sup>2 + (12/100)\<^sup>2) = 15/100"
  by (rule real_sqrt_unique) (simp_all add: power2_eq_square)

text \<open>
  C5. On every frame that is processed and shows a hand (of at least nine landmarks),
  \<open>active\<close> is set to \<open>d < 0.15\<close>, where \<open>d\<close> is the square root of the sum of the
  squared differences of the \<open>x\<close> and of the \<open>y\<close> coordinates of landmark 4 (thumb tip)
  and landmark 8 (index tip); \<open>z\<close> does not enter. The comparison is strict: with a
  distance of exactly \<open>0.15\<close> (differences \<open>0.09\<close> and \<open>0.12\<close>) the hand is not pinching,
  with a distance of \<open>0.1499\<close> it is, whatever the \<open>z\<close> coordinates are.
\<close>

theorem C5_pinch_threshold:
  assumes "videoReady f" and "recognizerLoaded f" and "currentTime f \<noteq> lastVideoTime t"
    and "hasContext f" and "recognition f = Results (Some (hand # rest))" and "8 < length hand"
  shows "(active (handData (predictWebcam t f)) \<longleftrightarrow>
            sqrt ((lm_x (hand ! 4) - lm_x (hand ! 8))\<^sup>2 + (lm_y (hand ! 4) - lm_y (hand ! 8))\<^sup>2) < 0.15)
       \<and> \<not> active (handData (predictWebcam initial_tracker
              (hand_frame 0 (hand_with \<lparr>lm_x = 0.39, lm_y = 0.62, lm_z = z1\<rparr>
                                       \<lparr>lm_x = 0.3, lm_y = 0.5, lm_z = z2\<rparr>))))
       \<and> active (handData (predictWebcam initial_tracker
              (hand_frame 0 (hand_with \<lparr>lm_x = 0.4499, lm_y = 0.5, lm_z = z1\<rparr>
                                       \<lparr>lm_x = 0.3, lm_y = 0.5, lm_z = z2\<rparr>))))"
proof (intro conjI)
  show "active (handData (predictWebcam t f)) \<longleftrightarrow>
            sqrt ((lm_x (hand ! 4) - lm_x (hand ! 8))\<^sup>2 + (lm_y (hand ! 4) - lm_y (hand ! 8))\<^sup>2) < 0.15"
    using predictWebcam_hand(2) [OF assms] by (simp add: isPinching_def pinch_distance_def)
next
  let ?a = "\<lparr>lm_x = 0.39, lm_y = 0.62, lm_z = z1\<rparr>" and ?b = "\<lparr>lm_x = 0.3, lm_y = 0.5, lm_z = z2\<rparr>"
  have d: "pinch_distance ?a ?b = 15/100"
    using sqrt_0225 by (simp add: pinch_distance_def)
  have h: "handData (predictWebcam initial_tracker (hand_frame 0 (hand_with ?a ?b))) =
          \<lparr>hand_x = pos_x (smooth (prevHand initial_tracker) ?b),
           hand_y = pos_y (smooth (prevHand initial_tracker) ?b),
           active = isPinching (pinch_distance ?a ?b)\<rparr>"
    using predictWebcam_hand(2) [of "hand_frame 0 (hand_with ?a ?b)" initial_tracker "hand_with ?a ?b" "[]"]
    by (simp add: initial_tracker_def)
  show "\<not> active (handData (predictWebcam initial_tracker (hand_frame 0 (hand_with ?a ?b))))"
    unfolding h HandData.select_convs d by (simp add: isPinching_def)
next
  let ?a = "\<lparr>lm_x = 0.4499, lm_y = 0.5, lm_z = z1\<rparr>" and ?b = "\<lparr>lm_x = 0.3, lm_y = 0.5, lm_z = z2\<rparr>"
  have d: "pinch_distance ?a ?b = 1499/10000"
    by (simp add: pinch_distance_level)
  have h: "handData (predictWebcam initial_tracker (hand_frame 0 (hand_with ?a ?b))) =
          \<lparr>hand_x = pos_x (smooth (prevHand initial_tracker) ?b),
           hand_y = pos_y (smooth (prevHand initial_tracker) ?b),
           active = isPinching (pinch_distance ?a ?b)\<rparr>"
    using predictWebcam_hand(2) [of "hand_frame 0 (hand_with ?a ?b)" initial_tracker "hand_with ?a ?b" "[]"]
    by (simp add: initial_tracker_def)
  show "active (handData (predictWebcam initial_tracker (hand_frame 0 (hand_with ?a ?b))))"
    unfolding h HandData.select_convs d by (simp add: isPinching_def)
qed

theorem C5_pinch_threshold_witness:
  "active (handData (predictWebcam initial_tracker
     (hand_frame 0 (hand_with \<lparr>lm_x = 0.35, lm_y = 0.5, lm_z = 0\<rparr>
                              \<lparr>lm_x = 0.3, lm_y = 0.5, lm_z = 0\<rparr>))))
   \<longleftrightarrow> sqrt ((0.35 - 0.3)\<^sup>2 + (0.5 - 0.5)\<^sup>2) < (0.15 :: real)"
  using C5_pinch_threshold
          [of "hand_frame 0 (hand_with \<lparr>lm_x = 0.35, lm_y = 0.5, lm_z = 0\<rparr>
                                       \<lparr>lm_x = 0.3, lm_y = 0.5, lm_z = 0\<rparr>)"
              initial_tracker
              "hand_with \<lparr>lm_x = 0.35, lm_y = 0.5, lm_z = 0\<rparr> \<lparr>lm_x = 0.3, lm_y = 0.5, lm_z = 0\<rparr>"
              "[]" 0 0]
  by (simp add: initial_tracker_def)


lemma track_frames_append:
  "track_frames t (fs @ gs) = track_frames (track_frames t fs) gs"
  by (induction fs arbitrary: t) simp_all

lemma pinch_distance_same [simp]: "pinch_distance a a = 0"
  by (simp add: pinch_distance_def)

section \<open>Pointer state after a frame\<close>

text \<open>
  C2. The claim says that a frame on which detection throws is treated as a frame without
  a hand, so that \<open>active\<close> is false after it. The code's \<open>catch\<close> block only logs: after a
  pinching frame, a frame on which \<open>recognizeForVideo\<close> throws leaves \<open>handDataRef\<close> as it
  was, with \<open>active\<close> still true, whereas a frame on which no hand is found (the \<open>else\<close>
  branch next to it) sets \<open>active\<close> to false and keeps \<open>x\<close> and \<open>y\<close>.
\<close>

theorem C2_exception_keeps_active:
  "handData (track_frames initial_tracker
      [hand_frame 1 (hand_with \<lparr>lm_x = 0.5, lm_y = 0.5, lm_z = 0\<rparr> \<lparr>lm_x = 0.5, lm_y = 0.5, lm_z = 0\<rparr>),
       throwing_frame 2])
     = \<lparr>hand_x = 0.5, hand_y = 0.5, active = True\<rparr>
   \<and> handData (track_frames initial_tracker
      [hand_frame 1 (hand_with \<lparr>lm_x = 0.5, lm_y = 0.5, lm_z = 0\<rparr> \<lparr>lm_x = 0.5, lm_y = 0.5, lm_z = 0\<rparr>),
       no_hand_frame 2])
     = \<lparr>hand_x = 0.5, hand_y = 0.5, active = False\<rparr>"
proof -
  define l where "l = \<lparr>lm_x = 0.5, lm_y = 0.5, lm_z = 0\<rparr>"
  define t1 where "t1 = predictWebcam initial_tracker (hand_frame 1 (hand_with l l))"
  have h1: "handData t1 = \<lparr>hand_x = 0.5, hand_y = 0.5, active = True\<rparr>"
    using predictWebcam_hand(2) [of "hand_frame 1 (hand_with l l)" initial_tracker "hand_with l l" "[]"]
    by (simp add: t1_def l_def initial_tracker_def smooth_def isPinching_def)
  have v1: "lastVideoTime t1 = 1"
    using predictWebcam_hand(3) [of "hand_frame 1 (hand_with l l)" initial_tracker "hand_with l l" "[]"]
    by (simp add: t1_def initial_tracker_def)
  have a: "handData (predictWebcam t1 (throwing_frame 2)) = handData t1"
    by (rule predictWebcam_throws) (simp add: throwing_frame_def)
  have b: "handData (predictWebcam t1 (no_hand_frame 2)) = (handData t1)\<lparr>active := False\<rparr>"
    by (rule predictWebcam_no_hand) (simp_all add: no_hand_frame_def v1)
  show ?thesis
    unfolding l_def [symmetric] track_frames.simps t1_def [symmetric]
    by (simp add: a b h1)
qed

section \<open>Pointer smoother\<close>

lemma held_frames_Suc:
  "held_frames (Suc n) hand = held_frames n hand @ [hand_frame (real (Suc n)) hand]"
  by (simp add: held_frames_def)

lemma track_held_frames:
  assumes "lastVideoTime t < 1" and "8 < length hand"
  shows "lastVideoTime (track_frames t (held_frames n hand)) < real (Suc n)
       \<and> pos_x (prevHand (track_frames t (held_frames n hand))) - (1 - lm_x (hand ! 8))
           = (1 - alpha) ^ n * (pos_x (prevHand t) - (1 - lm_x (hand ! 8)))
       \<and> pos_y (prevHand (track_frames t (held_frames n hand))) - lm_y (hand ! 8)
           = (1 - alpha) ^ n * (pos_y (prevHand t) - lm_y (hand ! 8))
       \<and> (0 < n \<longrightarrow>
            hand_x (handData (track_frames t (held_frames n hand)))
              = pos_x (prevHand (track_frames t (held_frames n hand)))
          \<and> hand_y (handData (track_frames t (held_frames n hand)))
              = pos_y (prevHand (track_frames t (held_frames n hand))))"
proof (induction n)
  case 0
  show ?case using assms(1) by (simp add: held_frames_def)
next
  case (Suc n)
  define u where "u = track_frames t (held_frames n hand)"
  define f where "f = hand_frame (real (Suc n)) hand"
  have step: "track_frames t (held_frames (Suc n) hand) = predictWebcam u f"
    by (simp add: held_frames_Suc track_frames_append u_def f_def)
  have fresh: "currentTime f \<noteq> lastVideoTime u"
    using Suc.IH by (simp add: u_def f_def)
  note pw = predictWebcam_hand [of f u hand "[]", OF _ _ fresh _ _ assms(2)]
  have p: "prevHand (predictWebcam u f) = smooth (prevHand u) (hand ! 8)"
    by (rule pw(1)) (simp_all add: f_def)
  have h: "handData (predictWebcam u f) =
           \<lparr>hand_x = pos_x (smooth (prevHand u) (hand ! 8)),
            hand_y = pos_y (smooth (prevHand u) (hand ! 8)),
            active = isPinching (pinch_distance (hand ! 4) (hand ! 8))\<rparr>"
    by (rule pw(2)) (simp_all add: f_def)
  have v: "lastVideoTime (predictWebcam u f) = currentTime f"
    by (rule pw(3)) (simp_all add: f_def)
  have x: "pos_x (prevHand u) - (1 - lm_x (hand ! 8))
             = (1 - alpha) ^ n * (pos_x (prevHand t) - (1 - lm_x (hand ! 8)))"
    and y: "pos_y (prevHand u) - lm_y (hand ! 8)
             = (1 - alpha) ^ n * (pos_y (prevHand t) - lm_y (hand ! 8))"
    using Suc.IH by (simp_all add: u_def)
  show ?case
    unfolding step
    by (simp add: p h v smooth_x smooth_y x y) (simp add: f_def)
qed

lemma pow_four_fifths_20: "(4 / 5 :: real) ^ 20 = 1099511627776 / 95367431640625"
  by (simp add: power_divide)

text \<open>
  C4, as the claim states it, fails: after 20 frames of the step input from \<open>(0.5, 0.5)\<close>
  to the raw target \<open>(0.9, 0.1)\<close> the smoothed \<open>x\<close> is \<open>0.4 * 0.8 ^ 20\<close>, about \<open>0.0046\<close>,
  away from \<open>0.9\<close>, which is more than \<open>0.001\<close>.
\<close>

theorem C4_step_counterexample:
  "\<not> \<bar>hand_x (handData (track_frames initial_tracker
          (held_frames 20 (hand_with \<lparr>lm_x = 0.1, lm_y = 0.1, lm_z = 0\<rparr>
                                     \<lparr>lm_x = 0.1, lm_y = 0.1, lm_z = 0\<rparr>)))) - 0.9\<bar> \<le> 1 / 1000"
proof -
  define hand where "hand = hand_with \<lparr>lm_x = 0.1, lm_y = 0.1, lm_z = 0\<rparr> \<lparr>lm_x = 0.1, lm_y = 0.1, lm_z = 0\<rparr>"
  define u where "u = track_frames initial_tracker (held_frames 20 hand)"
  have tip: "lm_x (hand ! 8) = 1/10" by (simp add: hand_def)
  have "pos_x (prevHand u) - (1 - lm_x (hand ! 8))
           = (1 - alpha) ^ 20 * (pos_x (prevHand initial_tracker) - (1 - lm_x (hand ! 8)))"
    and "hand_x (handData u) = pos_x (prevHand u)"
    using track_held_frames [of initial_tracker hand 20]
    by (simp_all add: u_def initial_tracker_def hand_def)
  then have "hand_x (handData u) - 9/10 = (4/5) ^ 20 * (- (4/10))"
    by (simp add: tip alpha_def initial_tracker_def)
  then have "\<bar>hand_x (handData u) - 9/10\<bar> > 1/1000"
    unfolding pow_four_fifths_20 by simp
  then show ?thesis
    unfolding hand_def [symmetric] u_def [symmetric] by simp
qed

text \<open>
  C4, amended. The smoothing factor is \<open>0.2\<close>. On every frame that is processed and shows
  a hand, the distance of the smoothed pointer to the raw value (\<open>1 - indexTip.x\<close>, resp.
  \<open>indexTip.y\<close>) is \<open>1 - alpha\<close> times the distance before the frame, in each coordinate,
  and the emitted pointer is the stored one. After 20 frames of the step input from
  \<open>(0.5, 0.5)\<close> to the raw target \<open>(0.9, 0.1)\<close> the emitted pointer is within \<open>0.005\<close> of
  the target in each coordinate.
\<close>

theorem C4_smoothing_convergence:
  assumes "videoReady f" and "recognizerLoaded f" and "currentTime f \<noteq> lastVideoTime t"
    and "hasContext f" and "recognition f = Results (Some (hand # rest))" and "8 < length hand"
  shows "alpha = 0.2
       \<and> \<bar>pos_x (prevHand (predictWebcam t f)) - (1 - lm_x (hand ! 8))\<bar>
           = (1 - alpha) * \<bar>pos_x (prevHand t) - (1 - lm_x (hand ! 8))\<bar>
       \<and> \<bar>pos_y (prevHand (predictWebcam t f)) - lm_y (hand ! 8)\<bar>
           = (1 - alpha) * \<bar>pos_y (prevHand t) - lm_y (hand ! 8)\<bar>
       \<and> hand_x (handData (predictWebcam t f)) = pos_x (prevHand (predictWebcam t f))
       \<and> hand_y (handData (predictWebcam t f)) = pos_y (prevHand (predictWebcam t f))
       \<and> (let u = track_frames initial_tracker
                    (held_frames 20 (hand_with thumbTip \<lparr>lm_x = 0.1, lm_y = 0.1, lm_z = z\<rparr>))
          in \<bar>hand_x (handData u) - 0.9\<bar> \<le> 5 / 1000 \<and> \<bar>hand_y (handData u) - 0.1\<bar> \<le> 5 / 1000)"
proof -
  note pw = predictWebcam_hand [OF assms]
  have na: "\<bar>1 - alpha\<bar> = 1 - alpha"
    by (simp add: alpha_def)
  have a: "\<bar>pos_x (prevHand (predictWebcam t f)) - (1 - lm_x (hand ! 8))\<bar>
           = (1 - alpha) * \<bar>pos_x (prevHand t) - (1 - lm_x (hand ! 8))\<bar>"
    by (simp only: pw(1) smooth_x abs_mult na)
  have b: "\<bar>pos_y (prevHand (predictWebcam t f)) - lm_y (hand ! 8)\<bar>
           = (1 - alpha) * \<bar>pos_y (prevHand t) - lm_y (hand ! 8)\<bar>"
    by (simp only: pw(1) smooth_y abs_mult na)
  have c: "hand_x (handData (predictWebcam t f)) = pos_x (prevHand (predictWebcam t f))"
    "hand_y (handData (predictWebcam t f)) = pos_y (prevHand (predictWebcam t f))"
    by (simp_all add: pw(1) pw(2))
  define hnd where "hnd = hand_with thumbTip \<lparr>lm_x = 0.1, lm_y = 0.1, lm_z = z\<rparr>"
  define u where "u = track_frames initial_tracker (held_frames 20 hnd)"
  have tip: "lm_x (hnd ! 8) = 1/10" "lm_y (hnd ! 8) = 1/10" by (simp_all add: hnd_def)
  have "pos_x (prevHand u) - (1 - lm_x (hnd ! 8))
           = (1 - alpha) ^ 20 * (pos_x (prevHand initial_tracker) - (1 - lm_x (hnd ! 8)))"
    and "pos_y (prevHand u) - lm_y (hnd ! 8)
           = (1 - alpha) ^ 20 * (pos_y (prevHand initial_tracker) - lm_y (hnd ! 8))"
    and "hand_x (handData u) = pos_x (prevHand u)"
    and "hand_y (handData u) = pos_y (prevHand u)"
    using track_held_frames [of initial_tracker hnd 20]
    by (simp_all add: u_def initial_tracker_def hnd_def)
  then have "hand_x (handData u) - 9/10 = (4/5) ^ 20 * (- (4/10))"
    and "hand_y (handData u) - 1/10 = (4/5) ^ 20 * (4/10)"
    by (simp_all add: tip alpha_def initial_tracker_def)
  then have d: "\<bar>hand_x (handData u) - 9/10\<bar> \<le> 5/1000 \<and> \<bar>hand_y (handData u) - 1/10\<bar> \<le> 5/1000"
    unfolding pow_four_fifths_20 by simp
  have e: "let u = track_frames initial_tracker
                    (held_frames 20 (hand_with thumbTip \<lparr>lm_x = 0.1, lm_y = 0.1, lm_z = z\<rparr>))
          in \<bar>hand_x (handData u) - 0.9\<bar> \<le> 5 / 1000 \<and> \<bar>hand_y (handData u) - 0.1\<bar> \<le> 5 / 1000"
    unfolding Let_def hnd_def [symmetric] u_def [symmetric] using d by simp
  show ?thesis
    using a b c e by (simp only: alpha_def simp_thms)
qed

theorem C4_smoothing_convergence_witness:
  "\<bar>pos_x (prevHand (predictWebcam initial_tracker
        (hand_frame 0 (hand_with \<lparr>lm_x = 0.1, lm_y = 0.1, lm_z = 0\<rparr>
                                 \<lparr>lm_x = 0.1, lm_y = 0.1, lm_z = 0\<rparr>)))) - 0.9\<bar>
     = 0.8 * \<bar>0.5 - 0.9\<bar>"
  using C4_smoothing_convergence
          [of "hand_frame 0 (hand_with \<lparr>lm_x = 0.1, lm_y = 0.1, lm_z = 0\<rparr>
                                       \<lparr>lm_x = 0.1, lm_y = 0.1, lm_z = 0\<rparr>)"
              initial_tracker
              "hand_with \<lparr>lm_x = 0.1, lm_y = 0.1, lm_z = 0\<rparr> \<lparr>lm_x = 0.1, lm_y = 0.1, lm_z = 0\<rparr>"
              "[]"]
  by (simp add: initial_tracker_def alpha_def)

lemma predictWebcam_cases:
  "(\<exists>hand rest. videoReady f \<and> recognizerLoaded f \<and> currentTime f \<noteq> lastVideoTime t
       \<and> hasContext f \<and> recognition f = Results (Some (hand # rest)) \<and> 8 < length hand)
   \<or> (prevHand (predictWebcam t f) = prevHand t
       \<and> hand_x (handData (predictWebcam t f)) = hand_x (handData t)
       \<and> hand_y (handData (predictWebcam t f)) = hand_y (handData t))"
  by (simp add: predictWebcam_def Let_def split: Recognition.splits option.splits list.splits)

lemma smooth_unit:
  assumes "0 \<le> pos_x p" "pos_x p \<le> 1" "0 \<le> pos_y p" "pos_y p \<le> 1"
    and "0 \<le> lm_x tip" "lm_x tip \<le> 1" "0 \<le> lm_y tip" "lm_y tip \<le> 1"
  shows "0 \<le> pos_x (smooth p tip) \<and> pos_x (smooth p tip) \<le> 1
       \<and> 0 \<le> pos_y (smooth p tip) \<and> pos_y (smooth p tip) \<le> 1"
proof -
  have x: "pos_x (smooth p tip) = (4 * pos_x p + (1 - lm_x tip)) / 5"
    and y: "pos_y (smooth p tip) = (4 * pos_y p + lm_y tip) / 5"
    by (simp_all add: smooth_def alpha_def Let_def field_simps)
  show ?thesis
    unfolding x y using assms by simp
qed

lemma predictWebcam_unit:
  assumes "0 \<le> pos_x (prevHand t) \<and> pos_x (prevHand t) \<le> 1
         \<and> 0 \<le> pos_y (prevHand t) \<and> pos_y (prevHand t) \<le> 1
         \<and> 0 \<le> hand_x (handData t) \<and> hand_x (handData t) \<le> 1
         \<and> 0 \<le> hand_y (handData t) \<and> hand_y (handData t) \<le> 1"
    and "fingertip_in_unit_square f"
  shows "0 \<le> pos_x (prevHand (predictWebcam t f)) \<and> pos_x (prevHand (predictWebcam t f)) \<le> 1
       \<and> 0 \<le> pos_y (prevHand (predictWebcam t f)) \<and> pos_y (prevHand (predictWebcam t f)) \<le> 1
       \<and> 0 \<le> hand_x (handData (predictWebcam t f)) \<and> hand_x (handData (predictWebcam t f)) \<le> 1
       \<and> 0 \<le> hand_y (handData (predictWebcam t f)) \<and> hand_y (handData (predictWebcam t f)) \<le> 1"
proof -
  from predictWebcam_cases [of f t] show ?thesis
  proof (elim disjE exE conjE)
    fix hand rest
    assume h: "videoReady f" "recognizerLoaded f" "currentTime f \<noteq> lastVideoTime t"
      "hasContext f" "recognition f = Results (Some (hand # rest))" "8 < length hand"
    from assms(2) h(5,6)
    have tip: "0 \<le> lm_x (hand ! 8)" "lm_x (hand ! 8) \<le> 1" "0 \<le> lm_y (hand ! 8)" "lm_y (hand ! 8) \<le> 1"
      by (simp_all add: fingertip_in_unit_square_def)
    from assms(1) have "0 \<le> pos_x (prevHand t)" "pos_x (prevHand t) \<le> 1"
      "0 \<le> pos_y (prevHand t)" "pos_y (prevHand t) \<le> 1" by simp_all
    from smooth_unit [OF this tip] show ?thesis
      by (simp add: predictWebcam_hand(1,2) [OF h])
  next
    assume "prevHand (predictWebcam t f) = prevHand t"
      "hand_x (handData (predictWebcam t f)) = hand_x (handData t)"
      "hand_y (handData (predictWebcam t f)) = hand_y (handData t)"
    with assms(1) show ?thesis by simp
  qed
qed

lemma track_frames_unit:
  assumes "\<forall>f\<in>set fs. fingertip_in_unit_square f"
    and "0 \<le> pos_x (prevHand t) \<and> pos_x (prevHand t) \<le> 1
         \<and> 0 \<le> pos_y (prevHand t) \<and> pos_y (prevHand t) \<le> 1
         \<and> 0 \<le> hand_x (handData t) \<and> hand_x (handData t) \<le> 1
         \<and> 0 \<le> hand_y (handData t) \<and> hand_y (handData t) \<le> 1"
  shows "0 \<le> pos_x (prevHand (track_frames t fs)) \<and> pos_x (prevHand (track_frames t fs)) \<le> 1
       \<and> 0 \<le> pos_y (prevHand (track_frames t fs)) \<and> pos_y (prevHand (track_frames t fs)) \<le> 1
       \<and> 0 \<le> hand_x (handData (track_frames t fs)) \<and> hand_x (handData (track_frames t fs)) \<le> 1
       \<and> 0 \<le> hand_y (handData (track_frames t fs)) \<and> hand_y (handData (track_frames t fs)) \<le> 1"
  using assms
proof (induction fs arbitrary: t)
  case Nil
  then show ?case by simp
next
  case (Cons f fs)
  from Cons.prems(1) have f: "fingertip_in_unit_square f" and fs: "\<forall>g\<in>set fs. fingertip_in_unit_square g"
    by simp_all
  from Cons.IH [OF fs predictWebcam_unit [OF Cons.prems(2) f]] show ?case
    by simp
qed

section \<open>Unit-square invariant\<close>

text \<open>
  C10. Starting from the initial tracker, whose smoothed pointer is \<open>(0.5, 0.5)\<close>, if the
  index tip of every frame has \<open>x\<close> and \<open>y\<close> in \<open>[0,1]\<close>, then after every number of
  frames both coordinates of the stored pointer (\<open>prevHand\<close>) and of the emitted pointer
  (\<open>handDataRef\<close>) lie in \<open>[0,1]\<close>.
\<close>

theorem C10_pointer_in_unit_square:
  assumes "\<forall>f\<in>set fs. fingertip_in_unit_square f"
  shows "(let t = track_frames initial_tracker (take n fs)
          in 0 \<le> pos_x (prevHand t) \<and> pos_x (prevHand t) \<le> 1
           \<and> 0 \<le> pos_y (prevHand t) \<and> pos_y (prevHand t) \<le> 1
           \<and> 0 \<le> hand_x (handData t) \<and> hand_x (handData t) \<le> 1
           \<and> 0 \<le> hand_y (handData t) \<and> hand_y (handData t) \<le> 1)"
proof -
  have "\<forall>f\<in>set (take n fs). fingertip_in_unit_square f"
    using assms by (meson in_set_takeD)
  from track_frames_unit [OF this, of initial_tracker] show ?thesis
    by (simp add: initial_tracker_def Let_def)
qed

theorem C10_pointer_in_unit_square_witness:
  "(let t = track_frames initial_tracker
              (take 2 [hand_frame 1 (hand_with \<lparr>lm_x = 0.2, lm_y = 0.3, lm_z = 0\<rparr>
                                               \<lparr>lm_x = 1, lm_y = 0, lm_z = 0\<rparr>),
                       no_hand_frame 2])
    in 0 \<le> pos_x (prevHand t) \<and> pos_x (prevHand t) \<le> 1
     \<and> 0 \<le> pos_y (prevHand t) \<and> pos_y (prevHand t) \<le> 1
     \<and> 0 \<le> hand_x (handData t) \<and> hand_x (handData t) \<le> 1
     \<and> 0 \<le> hand_y (handData t) \<and> hand_y (handData t) \<le> 1)"
proof -
  have h: "\<forall>f\<in>set [hand_frame 1 (hand_with \<lparr>lm_x = 0.2, lm_y = 0.3, lm_z = 0\<rparr>
                                       \<lparr>lm_x = 1, lm_y = 0, lm_z = 0\<rparr>),
                 no_hand_frame 2]. fingertip_in_unit_square f"
    by (simp add: fingertip_in_unit_square_def no_hand_frame_def)
  from C10_pointer_in_unit_square [OF h, of 2] show ?thesis .
qed

end
